theory Spec2Isabelle
  imports Main "HOL-Library.Sublist"
begin

section \<open>Messages and exceptions\<close>

text \<open>
  The agent of \<^verbatim>\<open>src/agent.py\<close> keeps a conversation of LangChain messages. The four
  message classes the source imports are the constructors of \<open>message\<close>; only an
  \<open>AIMessage\<close> has the attribute \<open>tool_calls\<close>. A tool call is the dictionary with keys
  \<^verbatim>\<open>name\<close>, \<^verbatim>\<open>args\<close> and \<^verbatim>\<open>id\<close> that the source reads
  (the key \<^verbatim>\<open>id\<close> is the field \<open>call_id\<close> here). Message content is a string or a list
  of typed blocks (the source tests \<^verbatim>\<open>isinstance(response.content, list)\<close>).

  A Python exception is a value \<open>Raised cls msg\<close>: its class name and \<^verbatim>\<open>str(e)\<close>. The
  values stand for instances of \<^verbatim>\<open>Exception\<close>, the class the handler of
  \<^verbatim>\<open>tool_use\<close> catches. A function that may raise returns \<open>exn + 'a\<close>.
\<close>

type_synonym args = "(string \<times> string) list"

record tool_call =
  name :: string
  args :: args
  call_id :: string

datatype block =
    text_block string "string option"
  | tool_use_block string args

datatype content = Str string | Blocks "block list"

datatype message =
    AIMessage content "tool_call list"
  | HumanMessage content
  | SystemMessage content
  | ToolMessage content string

datatype exn = Raised (cls: string) (str: string)

fun content_of :: "message \<Rightarrow> content" where
  "content_of (AIMessage c tcs) = c"
| "content_of (HumanMessage c) = c"
| "content_of (SystemMessage c) = c"
| "content_of (ToolMessage c i) = c"

fun class_name :: "message \<Rightarrow> string" where
  "class_name (AIMessage c tcs) = ''AIMessage''"
| "class_name (HumanMessage c) = ''HumanMessage''"
| "class_name (SystemMessage c) = ''SystemMessage''"
| "class_name (ToolMessage c i) = ''ToolMessage''"

text \<open>The attribute read \<^verbatim>\<open>m.tool_calls\<close>: defined on assistant messages only.\<close>

fun tool_calls :: "message \<Rightarrow> exn + tool_call list" where
  "tool_calls (AIMessage c tcs) = Inr tcs"
| "tool_calls m =
     Inl (Raised ''AttributeError''
       ([CHR 0x27] @ class_name m @ [CHR 0x27] @ '' object has no attribute '' @
        [CHR 0x27] @ ''tool_calls'' @ [CHR 0x27]))"

text \<open>\<^verbatim>\<open>ToolMessage.tool_call_id\<close>, for the messages that have one.\<close>

fun tool_call_id :: "message \<Rightarrow> string option" where
  "tool_call_id (ToolMessage c i) = Some i"
| "tool_call_id m = None"

text \<open>\<^verbatim>\<open>state.messages[-1]\<close>: an empty list has no last element.\<close>

definition last_message :: "message list \<Rightarrow> exn + message" where
  "last_message st =
     (if st = [] then Inl (Raised ''IndexError'' ''list index out of range'')
      else Inr (last st))"

text \<open>
  The reducer of \<^verbatim>\<open>AgentState.messages\<close>, a function of LangGraph. The nodes return
  messages that carry no identifier of an earlier message, and for those
  \<^verbatim>\<open>add_messages\<close> extends the list.
\<close>

definition add_messages :: "message list \<Rightarrow> message list \<Rightarrow> message list" where
  "add_messages left right = left @ right"

section \<open>The collaborators outside the repository\<close>

text \<open>
  The console, the model provider, LangGraph's \<^verbatim>\<open>ToolNode\<close>, the MCP client and the
  checkpoint store are not code of the repository. They are the fields of one record of
  functions, and every theorem about the agent holds for any value of it. The type \<open>'w\<close>
  is the state of the outside world that these calls read and change, \<open>'t\<close> the type of
  tools, \<open>'n\<close> the type of tool nodes and \<open>'k\<close> the type of checkpoint connections.
\<close>

record ('t, 'n, 'k, 'w) externals =
  console_input :: "'w \<Rightarrow> (exn + string) \<times> 'w"
  getcwd :: "'w \<Rightarrow> string"
  invoke :: "'t list \<Rightarrow> message list \<Rightarrow> 'w \<Rightarrow> (exn + message) \<times> 'w"
  tool_name :: "'t \<Rightarrow> string"
  ToolNode :: "'t option list \<Rightarrow> exn + 'n"
  ainvoke :: "'n \<Rightarrow> message list \<Rightarrow> 'w \<Rightarrow> (exn + message list) \<times> 'w"
  run_unit_tests :: "'t"
  mcp_get_tools :: "'w \<Rightarrow> (exn + 't list) \<times> 'w"
  from_conn_string :: "string \<Rightarrow> 'w \<Rightarrow> (exn + 'k) \<times> 'w"
  draw_mermaid :: "'w \<Rightarrow> exn option \<times> 'w"
  recursion_limit :: nat

section \<open>The agent\<close>

text \<open>
  The workflow graph that \<^verbatim>\<open>Agent.__init__\<close> builds: its nodes, its entry point, its
  fixed edges and its conditional edges (a source node with the mapping from the
  router's answer to the target). The router is always \<^verbatim>\<open>check_tool_use\<close>.
\<close>

record workflow =
  nodes :: "string list"
  entry_point :: string
  edges :: "(string \<times> string) list"
  conditional_edges :: "(string \<times> (string \<times> string) list) list"

record model_config =
  model_name :: string
  max_tokens :: nat
  api_key :: string

text \<open>
  The attributes of an \<^verbatim>\<open>Agent\<close>. Those that \<^verbatim>\<open>initialize\<close> sets are absent
  (\<open>None\<close>) before; \<open>agent\<close> is the compiled workflow, which holds the checkpointer.
\<close>

record ('t, 'k) agent =
  initialized :: bool
  model :: model_config
  workflow :: workflow
  tools :: "'t list option"
  model_with_tools :: "'t list option"
  checkpointer :: "'k option"
  agent :: "'k option"

definition attribute_error :: "string \<Rightarrow> exn" where
  "attribute_error a =
     Raised ''AttributeError''
       ([CHR 0x27] @ ''Agent'' @ [CHR 0x27] @ '' object has no attribute '' @
        [CHR 0x27] @ a @ [CHR 0x27])"

text \<open>
  \<^verbatim>\<open>load_dotenv()\<close> adds the variables of the \<^verbatim>\<open>.env\<close> file that the process
  environment does not define; \<^verbatim>\<open>os.getenv\<close> then reads the result.
\<close>

definition load_dotenv :: "(string \<rightharpoonup> string) \<Rightarrow> (string \<rightharpoonup> string) \<Rightarrow> (string \<rightharpoonup> string)" where
  "load_dotenv dotenv environ = dotenv ++ environ"

definition build_workflow :: workflow where
  "build_workflow =
     \<lparr> nodes = [''user_input'', ''model_response'', ''tool_use''],
       entry_point = ''user_input'',
       edges = [(''user_input'', ''model_response''), (''tool_use'', ''model_response'')],
       conditional_edges =
         [(''model_response'', [(''tool_use'', ''tool_use''), (''user_input'', ''user_input'')])] \<rparr>"

definition Agent_init :: "(string \<rightharpoonup> string) \<Rightarrow> (string \<rightharpoonup> string) \<Rightarrow> exn + ('t, 'k) agent" where
  "Agent_init dotenv environ =
     (let getenv = load_dotenv dotenv environ in
      case getenv ''ANTHROPIC_API_KEY'' of
        None \<Rightarrow>
          Inl (Raised ''RuntimeError''
                 ''Missing ANTHROPIC_API_KEY in environment. Set it in .env or your shell.'')
      | Some key \<Rightarrow>
          if key = [] then
            Inl (Raised ''RuntimeError''
                   ''Missing ANTHROPIC_API_KEY in environment. Set it in .env or your shell.'')
          else
            Inr \<lparr> initialized = False,
                  model = \<lparr> model_name = ''claude-3-7-sonnet-latest'', max_tokens = 4096,
                            api_key = key \<rparr>,
                  workflow = build_workflow,
                  tools = None, model_with_tools = None,
                  checkpointer = None, agent = None \<rparr>)"

text \<open>
  \<^verbatim>\<open>get_mcp_tools\<close> asks the MCP client for its tools; \<^verbatim>\<open>initialize\<close> returns at once
  on an initialised agent, and otherwise loads the tools, marks the agent initialised,
  binds the tools, opens the checkpoint store and compiles the workflow. The result is
  the exception raised, if any, the agent as the call leaves it, and the world.
\<close>

definition get_mcp_tools :: "('t, 'n, 'k, 'w) externals \<Rightarrow> 'w \<Rightarrow> (exn + 't list) \<times> 'w" where
  "get_mcp_tools ext w = mcp_get_tools ext w"

definition initialize ::
  "('t, 'n, 'k, 'w) externals \<Rightarrow> ('t, 'k) agent \<Rightarrow> 'w \<Rightarrow> exn option \<times> ('t, 'k) agent \<times> 'w" where
  "initialize ext self w =
     (if initialized self then (None, self, w)
      else
        let local_tools = [run_unit_tests ext] in
        case get_mcp_tools ext w of
          (Inl e, w1) \<Rightarrow> (Some e, self, w1)
        | (Inr mcp_tools, w1) \<Rightarrow>
            let self1 = self\<lparr> tools := Some (local_tools @ mcp_tools) \<rparr>;
                self2 = self1\<lparr> initialized := True \<rparr>;
                self3 = self2\<lparr> model_with_tools := Some (local_tools @ mcp_tools) \<rparr>;
                db_path = getcwd ext w1 @ ''/checkpoints.db''
            in case from_conn_string ext db_path w1 of
                 (Inl e, w2) \<Rightarrow> (Some e, self3, w2)
               | (Inr cp, w2) \<Rightarrow>
                   (None, self3\<lparr> checkpointer := Some cp, agent := Some cp \<rparr>, w2))"

section \<open>The nodes of the workflow\<close>

text \<open>
  A node reads the conversation and returns the messages to add to it. Console output
  (panels, prints) is written and never read back, so it is left out, except where
  building the text to print can raise.
\<close>

definition user_input ::
  "('t, 'n, 'k, 'w) externals \<Rightarrow> message list \<Rightarrow> 'w \<Rightarrow> (exn + message list) \<times> 'w" where
  "user_input ext st w =
     (case console_input ext w of
        (Inl e, w') \<Rightarrow> (Inl e, w')
      | (Inr line, w') \<Rightarrow> (Inr [HumanMessage (Str line)], w'))"

definition system_text :: string where
  "system_text =
   ''You are a specialised agent for maintaining and developing codebases.'' @ [CHR 0x0A] @
   ''            ## Development Guidelines:'' @ [CHR 0x0A] @
   [] @ [CHR 0x0A] @
   ''            1. **Test Failures:**'' @ [CHR 0x0A] @
   ''            - When tests fail, fix the implementation first, not the tests.'' @ [CHR 0x0A] @
   ''            - Tests represent expected behavior; implementation should conform to tests'' @ [CHR 0x0A] @
   ''            - Only modify tests if they clearly don'' @ [CHR 0x27] @ ''t match specifications'' @ [CHR 0x0A] @
   [] @ [CHR 0x0A] @
   ''            2. **Code Changes:**'' @ [CHR 0x0A] @
   ''            - Make the smallest possible changes to fix issues'' @ [CHR 0x0A] @
   ''            - Focus on fixing the specific problem rather than rewriting large portions'' @ [CHR 0x0A] @
   ''            - Add unit tests for all new functionality before implementing it'' @ [CHR 0x0A] @
   [] @ [CHR 0x0A] @
   ''            3. **Best Practices:**'' @ [CHR 0x0A] @
   ''            - Keep functions small with a single responsibility'' @ [CHR 0x0A] @
   ''            - Implement proper error handling with appropriate exceptions'' @ [CHR 0x0A] @
   ''            - Be mindful of configuration dependencies in tests'' @ [CHR 0x0A] @
   [] @ [CHR 0x0A] @
   ''            Ask for clarification when needed. Remember to examine test failure messages carefully to understand the root cause before making any changes.''"

text \<open>The list handed to the model: preamble, working directory, then the history.\<close>

definition prompt_messages :: "string \<Rightarrow> message list \<Rightarrow> message list" where
  "prompt_messages cwd st =
     [SystemMessage (Blocks [text_block system_text (Some ''ephemeral'')]),
      HumanMessage (Str (''Working directory: '' @ cwd))] @ st"

definition model_response ::
  "('t, 'n, 'k, 'w) externals \<Rightarrow> ('t, 'k) agent \<Rightarrow> message list \<Rightarrow> 'w
     \<Rightarrow> (exn + message list) \<times> 'w" where
  "model_response ext self st w =
     (let messages = prompt_messages (getcwd ext w) st in
      case model_with_tools self of
        None \<Rightarrow> (Inl (attribute_error ''model_with_tools''), w)
      | Some bound \<Rightarrow>
          (case invoke ext bound messages w of
             (Inl e, w') \<Rightarrow> (Inl e, w')
           | (Inr response, w') \<Rightarrow> (Inr [response], w')))"

text \<open>The conditional router.\<close>

definition check_tool_use :: "message list \<Rightarrow> exn + string" where
  "check_tool_use st =
     (case last_message st of
        Inl e \<Rightarrow> Inl e
      | Inr m \<Rightarrow>
          (case tool_calls m of
             Inl e \<Rightarrow> Inl e
           | Inr tcs \<Rightarrow> if tcs \<noteq> [] then Inr ''tool_use'' else Inr ''user_input''))"

text \<open>
  \<^verbatim>\<open>tools_by_name = {t.name: t for t in self.tools}\<close>: of two tools with one name the
  later one stays.
\<close>

definition tools_by_name :: "('t, 'n, 'k, 'w) externals \<Rightarrow> 't list \<Rightarrow> (string \<rightharpoonup> 't)" where
  "tools_by_name ext ts = map_of (rev (map (\<lambda>t. (tool_name ext t, t)) ts))"

definition error_message :: "string \<Rightarrow> exn \<Rightarrow> string \<Rightarrow> message" where
  "error_message nm e i =
     ToolMessage
       (Str (''ERROR: Exception during tool '' @ [CHR 0x27] @ nm @ [CHR 0x27] @
             '' execution: '' @ str e))
       i"

text \<open>
  \<^verbatim>\<open>"\n" + content + "\n"\<close>, the text of the result panel: Python concatenates strings
  only.
\<close>

definition result_text :: "content \<Rightarrow> exn + string" where
  "result_text c =
     (case c of
        Str s \<Rightarrow> Inr ([CHR 0x0A] @ s @ [CHR 0x0A])
      | Blocks bs \<Rightarrow>
          Inl (Raised ''TypeError''
                 (''can only concatenate str (not '' @ [CHR 0x22] @ ''list'' @ [CHR 0x22] @
                  '') to str'')))"

text \<open>
  The loop of \<^verbatim>\<open>tool_use\<close> over the tool calls of the last message, with the list
  \<^verbatim>\<open>response\<close> as accumulator. The tool node is built before the \<^verbatim>\<open>try\<close>; inside it
  the node is invoked on the whole state, the first message of its answer is appended
  and the result panel is printed; the handler appends an error message that carries the
  identifier of the call.
\<close>

fun tool_use_loop ::
  "('t, 'n, 'k, 'w) externals \<Rightarrow> (string \<rightharpoonup> 't) \<Rightarrow> message list \<Rightarrow> tool_call list
     \<Rightarrow> message list \<Rightarrow> 'w \<Rightarrow> (exn + message list) \<times> 'w" where
  "tool_use_loop ext by_name st [] response w = (Inr response, w)"
| "tool_use_loop ext by_name st (tc # tcs) response w =
     (let tool = by_name (name tc) in
      case ToolNode ext [tool] of
        Inl e \<Rightarrow> (Inl e, w)
      | Inr tool_node \<Rightarrow>
          (case ainvoke ext tool_node st w of
             (Inl e, w') \<Rightarrow>
               tool_use_loop ext by_name st tcs
                 (response @ [error_message (name tc) e (call_id tc)]) w'
           | (Inr msgs, w') \<Rightarrow>
               (case msgs of
                  [] \<Rightarrow>
                    tool_use_loop ext by_name st tcs
                      (response @
                        [error_message (name tc)
                           (Raised ''IndexError'' ''list index out of range'') (call_id tc)]) w'
                | m # ms \<Rightarrow>
                    (case result_text (content_of m) of
                       Inr panel \<Rightarrow> tool_use_loop ext by_name st tcs (response @ [m]) w'
                     | Inl e \<Rightarrow>
                         tool_use_loop ext by_name st tcs
                           (response @ [m] @ [error_message (name tc) e (call_id tc)]) w'))))"

definition tool_use ::
  "('t, 'n, 'k, 'w) externals \<Rightarrow> ('t, 'k) agent \<Rightarrow> message list \<Rightarrow> 'w
     \<Rightarrow> (exn + message list) \<times> 'w" where
  "tool_use ext self st w =
     (case tools self of
        None \<Rightarrow> (Inl (attribute_error ''tools''), w)
      | Some ts \<Rightarrow>
          (case last_message st of
             Inl e \<Rightarrow> (Inl e, w)
           | Inr m \<Rightarrow>
               (case tool_calls m of
                  Inl e \<Rightarrow> (Inl e, w)
                | Inr tcs \<Rightarrow> tool_use_loop ext (tools_by_name ext ts) st tcs [] w)))"

section \<open>Running the workflow\<close>

text \<open>
  The graph is executed by LangGraph's runtime, which is not code of the repository; what
  it does with the graph that \<^verbatim>\<open>Agent.__init__\<close> builds is written out here. One step
  runs the current node, adds the messages it returns with the reducer, and follows the
  node's edge: a fixed edge, or the conditional edge through the router. The graph has no
  edge to an end node, so a run stops only with an exception: one that a node raises, or
  the runtime's own when \<open>recursion_limit\<close> steps have been taken.
\<close>

definition run_node ::
  "('t, 'n, 'k, 'w) externals \<Rightarrow> ('t, 'k) agent \<Rightarrow> string \<Rightarrow> message list \<Rightarrow> 'w
     \<Rightarrow> (exn + message list) \<times> 'w" where
  "run_node ext self nd st w =
     (if nd = ''user_input'' then user_input ext st w
      else if nd = ''model_response'' then model_response ext self st w
      else if nd = ''tool_use'' then tool_use ext self st w
      else (Inl (Raised ''KeyError'' nd), w))"

definition next_node :: "workflow \<Rightarrow> string \<Rightarrow> message list \<Rightarrow> exn + string" where
  "next_node graph nd st =
     (case map_of (edges graph) nd of
        Some target \<Rightarrow> Inr target
      | None \<Rightarrow>
          (case map_of (conditional_edges graph) nd of
             None \<Rightarrow> Inl (Raised ''KeyError'' nd)
           | Some path_map \<Rightarrow>
               (case check_tool_use st of
                  Inl e \<Rightarrow> Inl e
                | Inr answer \<Rightarrow>
                    (case map_of path_map answer of
                       None \<Rightarrow> Inl (Raised ''KeyError'' answer)
                     | Some target \<Rightarrow> Inr target))))"

definition step ::
  "('t, 'n, 'k, 'w) externals \<Rightarrow> ('t, 'k) agent \<Rightarrow> string \<times> message list \<Rightarrow> 'w
     \<Rightarrow> (exn + string \<times> message list) \<times> 'w" where
  "step ext self cfg w =
     (case run_node ext self (fst cfg) (snd cfg) w of
        (Inl e, w') \<Rightarrow> (Inl e, w')
      | (Inr update, w') \<Rightarrow>
          (let st' = add_messages (snd cfg) update in
           case next_node (workflow self) (fst cfg) st' of
             Inl e \<Rightarrow> (Inl e, w')
           | Inr nd' \<Rightarrow> (Inr (nd', st'), w')))"

fun run_graph ::
  "('t, 'n, 'k, 'w) externals \<Rightarrow> ('t, 'k) agent \<Rightarrow> nat \<Rightarrow> string \<times> message list \<Rightarrow> 'w
     \<Rightarrow> exn \<times> (string \<times> message list) \<times> 'w" where
  "run_graph ext self 0 cfg w = (Raised ''GraphRecursionError'' ''Recursion limit reached'', cfg, w)"
| "run_graph ext self (Suc n) cfg w =
     (case step ext self cfg w of
        (Inl e, w') \<Rightarrow> (e, cfg, w')
      | (Inr cfg', w') \<Rightarrow> run_graph ext self n cfg' w')"

text \<open>
  \<^verbatim>\<open>Agent.run\<close>: the input of the first execution is the greeting, added with the
  reducer to the conversation the checkpoint store holds for the thread (\<open>saved\<close>, empty
  for a new session); the workflow starts at its entry point.
\<close>

definition greeting :: message where
  "greeting = AIMessage (Str ''What can I do for you?'') []"

definition run_start :: "('t, 'k) agent \<Rightarrow> message list \<Rightarrow> string \<times> message list" where
  "run_start self saved = (entry_point (workflow self), add_messages saved [greeting])"

definition run ::
  "('t, 'n, 'k, 'w) externals \<Rightarrow> ('t, 'k) agent \<Rightarrow> message list \<Rightarrow> 'w
     \<Rightarrow> exn \<times> (string \<times> message list) \<times> 'w" where
  "run ext self saved w =
     (case agent self of
        None \<Rightarrow> (attribute_error ''agent'', (entry_point (workflow self), saved), w)
      | Some compiled \<Rightarrow> run_graph ext self (recursion_limit ext) (run_start self saved) w)"

text \<open>
  \<^verbatim>\<open>async_main\<close> of \<^verbatim>\<open>src/main.py\<close>: construct, initialise, print the graph, run. The
  result is the exception that ends the program, the conversation reached (\<open>None\<close> when
  no session began), and the world. The source closes the checkpoint store after
  \<^verbatim>\<open>run\<close> has returned; a run ends with an exception, so that line is not reached.
\<close>

definition async_main ::
  "('t, 'n, 'k, 'w) externals \<Rightarrow> (string \<rightharpoonup> string) \<Rightarrow> (string \<rightharpoonup> string) \<Rightarrow> message list \<Rightarrow> 'w
     \<Rightarrow> exn \<times> message list option \<times> 'w" where
  "async_main ext dotenv environ saved w =
     (case (Agent_init dotenv environ :: exn + ('t, 'k) agent) of
        Inl e \<Rightarrow> (e, None, w)
      | Inr self \<Rightarrow>
          (case initialize ext self w of
             (Some e, self1, w1) \<Rightarrow> (e, None, w1)
           | (None, self1, w1) \<Rightarrow>
               (case draw_mermaid ext w1 of
                  (Some e, w2) \<Rightarrow> (e, None, w2)
                | (None, w2) \<Rightarrow>
                    (case run ext self1 saved w2 of
                       (e, cfg, w3) \<Rightarrow> (e, Some (snd cfg), w3)))))"

section \<open>A reference instance of the collaborators\<close>

text \<open>
  One value of the record of collaborators, used to run the agent on concrete inputs. A
  tool is its name and a function from the arguments to its result; the world is the
  lines still to be typed at the console. The tool node follows what LangGraph documents
  for \<^verbatim>\<open>ToolNode\<close>: it is built from tools, each of which has a name, and invoking it
  on a state answers every tool call of the last assistant message, in the order of the
  calls, with one tool message per call that carries the identifier of its call; a call
  to a tool that the node does not hold is answered with an error text. With
  \<open>handle\<close> the node turns an exception of a tool into an error text too; without it
  the exception leaves \<^verbatim>\<open>ainvoke\<close>.
\<close>

type_synonym ref_tool = "string \<times> (args \<Rightarrow> exn + content)"

definition ref_console_input :: "string list \<Rightarrow> (exn + string) \<times> string list" where
  "ref_console_input w =
     (case w of
        [] \<Rightarrow> (Inl (Raised ''EOFError'' ''EOF when reading a line''), [])
      | line # rest \<Rightarrow> (Inr line, rest))"

definition ref_ToolNode :: "ref_tool option list \<Rightarrow> exn + ref_tool list" where
  "ref_ToolNode ts =
     (case those ts of
        None \<Rightarrow>
          Inl (Raised ''AttributeError''
                 ([CHR 0x27] @ ''function'' @ [CHR 0x27] @ '' object has no attribute '' @
                  [CHR 0x27] @ ''name'' @ [CHR 0x27]))
      | Some held \<Rightarrow> Inr held)"

definition ref_run_one :: "bool \<Rightarrow> ref_tool list \<Rightarrow> tool_call \<Rightarrow> exn + message" where
  "ref_run_one handle node tc =
     (case map_of node (name tc) of
        None \<Rightarrow>
          Inr (ToolMessage (Str (''Error: '' @ name tc @ '' is not a valid tool'')) (call_id tc))
      | Some f \<Rightarrow>
          (case f (args tc) of
             Inr c \<Rightarrow> Inr (ToolMessage c (call_id tc))
           | Inl e \<Rightarrow>
               if handle then Inr (ToolMessage (Str (''Error: '' @ str e)) (call_id tc))
               else Inl e))"

fun gather :: "(exn + 'a) list \<Rightarrow> exn + 'a list" where
  "gather [] = Inr []"
| "gather (x # xs) =
     (case x of
        Inl e \<Rightarrow> Inl e
      | Inr v \<Rightarrow> (case gather xs of Inl e \<Rightarrow> Inl e | Inr vs \<Rightarrow> Inr (v # vs)))"

definition ref_ainvoke ::
  "bool \<Rightarrow> ref_tool list \<Rightarrow> message list \<Rightarrow> string list \<Rightarrow> (exn + message list) \<times> string list" where
  "ref_ainvoke handle node st w =
     (case last_message st of
        Inl e \<Rightarrow> (Inl (Raised ''ValueError'' ''No message found in input''), w)
      | Inr m \<Rightarrow>
          (case m of
             AIMessage c tcs \<Rightarrow> (gather (map (ref_run_one handle node) tcs), w)
           | _ \<Rightarrow> (Inl (Raised ''ValueError'' ''Last message is not an AIMessage''), w)))"

definition ref_ext ::
  "bool \<Rightarrow> (message list \<Rightarrow> exn + message) \<Rightarrow> ref_tool \<Rightarrow> ref_tool list \<Rightarrow> nat
     \<Rightarrow> (ref_tool, ref_tool list, string, string list) externals" where
  "ref_ext handle brain local_tool mcp limit =
     \<lparr> console_input = ref_console_input,
       getcwd = (\<lambda>w. ''/work''),
       invoke = (\<lambda>bound messages w. (brain messages, w)),
       tool_name = fst,
       ToolNode = ref_ToolNode,
       ainvoke = ref_ainvoke handle,
       run_unit_tests = local_tool,
       mcp_get_tools = (\<lambda>w. (Inr mcp, w)),
       from_conn_string = (\<lambda>path w. (Inr path, w)),
       draw_mermaid = (\<lambda>w. (None, w)),
       recursion_limit = limit \<rparr>"

text \<open>Three tools: one that succeeds, one that always raises, one that searches.\<close>

definition unit_tests_tool :: ref_tool where
  "unit_tests_tool = (''run_unit_tests'', \<lambda>a. Inr (Str ''2 passed''))"

definition broken_tool :: ref_tool where
  "broken_tool = (''broken_tool'', \<lambda>a. Inl (Raised ''ValueError'' ''boom''))"

definition search_tool :: ref_tool where
  "search_tool = (''search'', \<lambda>a. Inr (Str ''3 results''))"

text \<open>A tool whose result is a list of text blocks.\<close>

definition list_dir_tool :: ref_tool where
  "list_dir_tool =
     (''list_dir'', \<lambda>a. Inr (Blocks [text_block ''a.txt'' None, text_block ''b.txt'' None]))"

text \<open>A model that answers with the class names of the messages it was given.\<close>

definition echo_classes :: "message list \<Rightarrow> exn + message" where
  "echo_classes messages =
     Inr (AIMessage (Blocks (map (\<lambda>m. text_block (class_name m) None) messages)) [])"


definition ref_agent :: "ref_tool list \<Rightarrow> (ref_tool, string) agent" where
  "ref_agent ts =
     \<lparr> initialized = True,
       model = \<lparr> model_name = ''claude-3-7-sonnet-latest'', max_tokens = 4096,
                 api_key = ''sk-test'' \<rparr>,
       workflow = build_workflow,
       tools = Some ts, model_with_tools = Some ts,
       checkpointer = Some ''/work/checkpoints.db'',
       agent = Some ''/work/checkpoints.db'' \<rparr>"

section \<open>Lemmas on the workflow\<close>

lemma check_tool_use_snoc:
  "check_tool_use (st @ [m]) =
     (case tool_calls m of
        Inl e \<Rightarrow> Inl e
      | Inr tcs \<Rightarrow> if tcs \<noteq> [] then Inr ''tool_use'' else Inr ''user_input'')"
  by (simp add: check_tool_use_def last_message_def)

lemma entry_point_build_workflow [simp]: "entry_point build_workflow = ''user_input''"
  by (simp add: build_workflow_def)

lemma next_node_user_input [simp]:
  "next_node build_workflow ''user_input'' st = Inr ''model_response''"
  by (simp add: next_node_def build_workflow_def)

lemma next_node_tool_use [simp]:
  "next_node build_workflow ''tool_use'' st = Inr ''model_response''"
  by (simp add: next_node_def build_workflow_def)

lemma next_node_model_response [simp]:
  "next_node build_workflow ''model_response'' st = check_tool_use st"
  by (simp add: next_node_def build_workflow_def check_tool_use_def split: sum.splits)

lemma run_node_user_input [simp]: "run_node ext self ''user_input'' st w = user_input ext st w"
  by (simp add: run_node_def)

lemma run_node_model_response [simp]:
  "run_node ext self ''model_response'' st w = model_response ext self st w"
  by (simp add: run_node_def)

lemma run_node_tool_use [simp]: "run_node ext self ''tool_use'' st w = tool_use ext self st w"
  by (simp add: run_node_def)

lemma step_appends:
  assumes "step ext self (nd, st) w = (Inr (nd', st'), w')"
  shows "\<exists>new. run_node ext self nd st w = (Inr new, w') \<and> st' = st @ new"
  using assms
  by (auto simp: step_def add_messages_def Let_def split: prod.splits sum.splits)

lemma run_graph_appends:
  "run_graph ext self n (nd, st) w = (e, (nd', st'), w') \<Longrightarrow> prefix st st'"
proof (induction n arbitrary: nd st w)
  case 0
  then show ?case by simp
next
  case (Suc n)
  show ?case
  proof (cases "step ext self (nd, st) w")
    case (Pair r w1)
    show ?thesis
    proof (cases r)
      case (Inl x)
      with Pair Suc.prems show ?thesis by simp
    next
      case (Inr cfg)
      obtain nd1 st1 where cfg: "cfg = (nd1, st1)" by (cases cfg)
      from Pair Inr cfg have s: "step ext self (nd, st) w = (Inr (nd1, st1), w1)" by simp
      from step_appends [OF s] have p1: "prefix st st1" by auto
      from Suc.prems s have "run_graph ext self n (nd1, st1) w1 = (e, (nd', st'), w')" by simp
      from Suc.IH [OF this] have "prefix st1 st'" .
      with p1 show ?thesis by (rule prefix_order.trans)
    qed
  qed
qed



section \<open>The router\<close>

text \<open>
  Claim C1, as amended. For an assistant message as the last message of the conversation,
  \<^verbatim>\<open>check_tool_use\<close> answers \<^verbatim>\<open>tool_use\<close> if its list of tool calls is not empty
  and \<^verbatim>\<open>user_input\<close> if it is empty. The answer is \<^verbatim>\<open>tool_use\<close> if and only if the
  last message is an assistant message with a non-empty list of tool calls, and it is
  \<^verbatim>\<open>user_input\<close> if and only if the last message is an assistant message with an empty
  list of tool calls: a message of another class has no \<^verbatim>\<open>tool_calls\<close> and gets no
  answer. The workflow calls the router only after \<^verbatim>\<open>model_response\<close>.
\<close>

theorem check_tool_use_last_message:
  "check_tool_use (st @ [AIMessage c tcs]) =
     (if tcs \<noteq> [] then Inr ''tool_use'' else Inr ''user_input'')
   \<and> (check_tool_use (st @ [m]) = Inr ''tool_use'') = (\<exists>c tcs. m = AIMessage c tcs \<and> tcs \<noteq> [])
   \<and> (check_tool_use (st @ [m]) = Inr ''user_input'') = (\<exists>c. m = AIMessage c [])"
  by (cases m) (simp_all add: check_tool_use_snoc)

text \<open>
  Claim C1 as stated has the router answer \<^verbatim>\<open>user_input\<close> for a message that is not an
  assistant message. For a user message it does not: reading \<^verbatim>\<open>tool_calls\<close> raises.
\<close>

theorem check_tool_use_user_message_counterexample:
  "check_tool_use [HumanMessage (Str ''hello'')] \<noteq> Inr ''user_input''
   \<and> check_tool_use [HumanMessage (Str ''hello'')] =
       Inl (Raised ''AttributeError''
              ([CHR 0x27] @ ''HumanMessage'' @ [CHR 0x27] @ '' object has no attribute '' @
               [CHR 0x27] @ ''tool_calls'' @ [CHR 0x27]))"
  by (simp add: check_tool_use_def last_message_def)

section \<open>Tool execution\<close>

text \<open>
  Claim C2 says that a call to a tool that is not registered yields a failure result with
  the identifier of the call, and never raises. In \<^verbatim>\<open>tool_use\<close> the lookup of such a
  name gives \<^verbatim>\<open>None\<close>, and \<^verbatim>\<open>ToolNode([None])\<close> is built before the \<^verbatim>\<open>try\<close>. With a
  tool node that needs the name of each of its tools, the call of the model to the
  unknown tool \<^verbatim>\<open>list_files\<close> makes \<^verbatim>\<open>tool_use\<close> raise, and the run of the workflow
  ends with that exception.
\<close>

theorem tool_use_unregistered_tool_raises:
  "tool_use (ref_ext True echo_classes unit_tests_tool [search_tool] 25)
     (ref_agent [unit_tests_tool, search_tool])
     [HumanMessage (Str ''go''),
      AIMessage (Str '''') [\<lparr>name = ''list_files'', args = [], call_id = ''call_1''\<rparr>]] [] =
   (Inl (Raised ''AttributeError''
          ([CHR 0x27] @ ''function'' @ [CHR 0x27] @ '' object has no attribute '' @
           [CHR 0x27] @ ''name'' @ [CHR 0x27])), [])
   \<and> fst (run (ref_ext True
                 (\<lambda>ms. Inr (AIMessage (Str '''')
                              [\<lparr>name = ''list_files'', args = [], call_id = ''call_1''\<rparr>]))
                 unit_tests_tool [search_tool] (Suc (Suc (Suc 0))))
            (ref_agent [unit_tests_tool, search_tool]) [] [''go'', ''more'']) =
     Raised ''AttributeError''
          ([CHR 0x27] @ ''function'' @ [CHR 0x27] @ '' object has no attribute '' @
           [CHR 0x27] @ ''name'' @ [CHR 0x27])"
  by (simp add: tool_use_def ref_agent_def ref_ext_def last_message_def tools_by_name_def
      unit_tests_tool_def search_tool_def ref_ToolNode_def run_def run_start_def greeting_def
      add_messages_def step_def user_input_def ref_console_input_def model_response_def
      prompt_messages_def check_tool_use_def)

text \<open>
  Claim C3 says that an assistant message with K tool calls is followed by exactly K tool
  messages whose identifiers are those of its calls. \<^verbatim>\<open>tool_use\<close> hands every tool node
  the whole state and keeps the first message of its answer. With a tool node that
  answers all the tool calls of the last message in their order, both messages appended
  for the calls \<^verbatim>\<open>a\<close> and \<^verbatim>\<open>b\<close> answer the call \<^verbatim>\<open>a\<close>, and \<^verbatim>\<open>b\<close> has no answer.
\<close>

theorem tool_use_two_calls_one_identifier:
  "tool_use (ref_ext True echo_classes unit_tests_tool [search_tool] 25)
     (ref_agent [unit_tests_tool, search_tool])
     [AIMessage (Str '''')
        [\<lparr>name = ''run_unit_tests'', args = [], call_id = ''a''\<rparr>,
         \<lparr>name = ''search'', args = [], call_id = ''b''\<rparr>]] [] =
   (Inr [ToolMessage (Str ''2 passed'') ''a'',
         ToolMessage (Str ''Error: run_unit_tests is not a valid tool'') ''a''], [])
   \<and> map tool_call_id
         [ToolMessage (Str ''2 passed'') ''a'',
          ToolMessage (Str ''Error: run_unit_tests is not a valid tool'') ''a''] =
       [Some ''a'', Some ''a'']"
  by (simp add: tool_use_def ref_agent_def ref_ext_def last_message_def tools_by_name_def
      unit_tests_tool_def search_tool_def ref_ToolNode_def ref_ainvoke_def ref_run_one_def
      result_text_def)


text \<open>
  The handler itself: when the tool of a call is registered, its tool node is built, and
  invoking the node raises, the handler appends one tool message that carries the
  identifier of the call and a text with the name of the tool and the description of the
  exception, and the loop goes on with the remaining calls. This is the path of a tool
  node that lets the exception of a tool leave \<^verbatim>\<open>ainvoke\<close>.
\<close>

lemma tool_use_loop_exception_caught:
  assumes "by_name (name tc) = Some t"
    and "ToolNode ext [Some t] = Inr nd"
    and "ainvoke ext nd st w = (Inl e, w')"
  shows "tool_use_loop ext by_name st (tc # rest) response w =
           tool_use_loop ext by_name st rest
             (response @
               [ToolMessage
                  (Str (''ERROR: Exception during tool '' @ [CHR 0x27] @ name tc @ [CHR 0x27] @
                        '' execution: '' @ str e))
                  (call_id tc)]) w'
         \<and> tool_use_loop ext by_name st [tc] response w =
           (Inr (response @
               [ToolMessage
                  (Str (''ERROR: Exception during tool '' @ [CHR 0x27] @ name tc @ [CHR 0x27] @
                        '' execution: '' @ str e))
                  (call_id tc)]), w')"
  using assms by (simp add: error_message_def)

lemma tool_use_loop_exception_caught_example:
  "tools_by_name (ref_ext False echo_classes unit_tests_tool [broken_tool] 25)
       [unit_tests_tool, broken_tool] ''broken_tool'' = Some broken_tool
   \<and> ToolNode (ref_ext False echo_classes unit_tests_tool [broken_tool] 25) [Some broken_tool] =
       Inr [broken_tool]
   \<and> ainvoke (ref_ext False echo_classes unit_tests_tool [broken_tool] 25) [broken_tool]
       [AIMessage (Str '''') [\<lparr>name = ''broken_tool'', args = [], call_id = ''call_7''\<rparr>]] [] =
       (Inl (Raised ''ValueError'' ''boom''), [])
   \<and> tool_use_loop (ref_ext False echo_classes unit_tests_tool [broken_tool] 25)
       (tools_by_name (ref_ext False echo_classes unit_tests_tool [broken_tool] 25)
          [unit_tests_tool, broken_tool])
       [AIMessage (Str '''') [\<lparr>name = ''broken_tool'', args = [], call_id = ''call_7''\<rparr>]]
       [\<lparr>name = ''broken_tool'', args = [], call_id = ''call_7''\<rparr>] [] [] =
       (Inr [ToolMessage (Str ''ERROR: Exception during tool 'broken_tool' execution: boom'')
               ''call_7''], [])"
  using tool_use_loop_exception_caught
    [of "tools_by_name (ref_ext False echo_classes unit_tests_tool [broken_tool] 25)
          [unit_tests_tool, broken_tool]"
        "\<lparr>name = ''broken_tool'', args = [], call_id = ''call_7''\<rparr>"
        broken_tool
        "ref_ext False echo_classes unit_tests_tool [broken_tool] 25"
        "[broken_tool]"
        "[AIMessage (Str '''') [\<lparr>name = ''broken_tool'', args = [], call_id = ''call_7''\<rparr>]]"
        "[]" "Raised ''ValueError'' ''boom''" "[]" "[]" "[]"]
  by (simp add: ref_ext_def tools_by_name_def unit_tests_tool_def broken_tool_def
      ref_ToolNode_def ref_ainvoke_def ref_run_one_def last_message_def)

section \<open>One iteration of the tool loop, for any tool node\<close>

text \<open>
  The tool node is built before the \<^verbatim>\<open>try\<close>: an exception of its constructor is
  not caught, whatever the tool node is. It leaves the loop with the calls that remain
  unanswered.
\<close>

theorem tool_use_loop_no_node:
  assumes "ToolNode ext [by_name (name tc)] = Inl e"
  shows "tool_use_loop ext by_name st (tc # rest) response w = (Inl e, w)"
  using assms by simp

theorem tool_use_loop_no_node_witness:
  "ToolNode (ref_ext True echo_classes unit_tests_tool [search_tool] 25)
       [tools_by_name (ref_ext True echo_classes unit_tests_tool [search_tool] 25)
          [unit_tests_tool, search_tool]
          (name \<lparr>name = ''list_files'', args = [], call_id = ''call_1''\<rparr>)] =
     Inl (Raised ''AttributeError''
            ([CHR 0x27] @ ''function'' @ [CHR 0x27] @ '' object has no attribute '' @
             [CHR 0x27] @ ''name'' @ [CHR 0x27]))
   \<and> tool_use_loop (ref_ext True echo_classes unit_tests_tool [search_tool] 25)
       (tools_by_name (ref_ext True echo_classes unit_tests_tool [search_tool] 25)
          [unit_tests_tool, search_tool])
       [AIMessage (Str '''') [\<lparr>name = ''list_files'', args = [], call_id = ''call_1''\<rparr>]]
       [\<lparr>name = ''list_files'', args = [], call_id = ''call_1''\<rparr>] [] [] =
     (Inl (Raised ''AttributeError''
            ([CHR 0x27] @ ''function'' @ [CHR 0x27] @ '' object has no attribute '' @
             [CHR 0x27] @ ''name'' @ [CHR 0x27])), [])"
proof -
  let ?ext = "ref_ext True echo_classes unit_tests_tool [search_tool] 25"
  let ?by_name = "tools_by_name ?ext [unit_tests_tool, search_tool]"
  let ?tc = "\<lparr>name = ''list_files'', args = [], call_id = ''call_1''\<rparr>"
  have no_node: "ToolNode ?ext [?by_name (name ?tc)] =
     Inl (Raised ''AttributeError''
            ([CHR 0x27] @ ''function'' @ [CHR 0x27] @ '' object has no attribute '' @
             [CHR 0x27] @ ''name'' @ [CHR 0x27]))"
    by (simp add: ref_ext_def tools_by_name_def unit_tests_tool_def search_tool_def
        ref_ToolNode_def)
  from tool_use_loop_no_node [where ext = ?ext and by_name = ?by_name and tc = ?tc, OF no_node]
    no_node
  show ?thesis by blast
qed

text \<open>
  Inside the \<^verbatim>\<open>try\<close> the node is invoked on the state, not on the call. When it
  answers with a first message whose content is a string, that message is appended as it
  is: its identifier is the one the node gave it, and the call being handled has no
  part in it.
\<close>

theorem tool_use_loop_answer:
  assumes "ToolNode ext [by_name (name tc)] = Inr nd"
    and "ainvoke ext nd st w = (Inr (m # ms), w')"
    and "content_of m = Str s"
  shows "tool_use_loop ext by_name st (tc # rest) response w =
           tool_use_loop ext by_name st rest (response @ [m]) w'"
  using assms by (simp add: result_text_def)

theorem tool_use_loop_answer_witness:
  "tool_use_loop (ref_ext True echo_classes unit_tests_tool [search_tool] 25)
       (tools_by_name (ref_ext True echo_classes unit_tests_tool [search_tool] 25)
          [unit_tests_tool, search_tool])
       [AIMessage (Str '''')
          [\<lparr>name = ''run_unit_tests'', args = [], call_id = ''a''\<rparr>,
           \<lparr>name = ''search'', args = [], call_id = ''b''\<rparr>]]
       [\<lparr>name = ''search'', args = [], call_id = ''b''\<rparr>] [] [] =
     (Inr [ToolMessage (Str ''Error: run_unit_tests is not a valid tool'') ''a''], [])"
proof -
  let ?ext = "ref_ext True echo_classes unit_tests_tool [search_tool] 25"
  let ?by_name = "tools_by_name ?ext [unit_tests_tool, search_tool]"
  let ?tc = "\<lparr>name = ''search'', args = [], call_id = ''b''\<rparr>"
  let ?st = "[AIMessage (Str '''')
          [\<lparr>name = ''run_unit_tests'', args = [], call_id = ''a''\<rparr>,
           \<lparr>name = ''search'', args = [], call_id = ''b''\<rparr>]]"
  have node: "ToolNode ?ext [?by_name (name ?tc)] = Inr [search_tool]"
    by (simp add: ref_ext_def tools_by_name_def unit_tests_tool_def search_tool_def
        ref_ToolNode_def)
  have answer: "ainvoke ?ext [search_tool] ?st [] =
      (Inr (ToolMessage (Str ''Error: run_unit_tests is not a valid tool'') ''a'' #
            [ToolMessage (Str ''3 results'') ''b'']), [])"
    by (simp add: ref_ext_def search_tool_def ref_ainvoke_def ref_run_one_def
        last_message_def)
  have string: "content_of (ToolMessage (Str ''Error: run_unit_tests is not a valid tool'') ''a'') =
      Str ''Error: run_unit_tests is not a valid tool''"
    by simp
  from tool_use_loop_answer
    [where ext = ?ext and by_name = ?by_name and tc = ?tc, OF node answer string, of "[]" "[]"]
  show ?thesis by simp
qed

text \<open>
  When the first message of the answer has a list as content, it is appended, then
  building the text of the result panel raises \<^verbatim>\<open>TypeError\<close> inside the \<^verbatim>\<open>try\<close>,
  and the handler appends an error message for the same call: two messages for one call.
\<close>

theorem tool_use_loop_list_content:
  assumes "ToolNode ext [by_name (name tc)] = Inr nd"
    and "ainvoke ext nd st w = (Inr (m # ms), w')"
    and "content_of m = Blocks bs"
  shows "tool_use_loop ext by_name st (tc # rest) response w =
           tool_use_loop ext by_name st rest
             (response @ [m, error_message (name tc)
                (Raised ''TypeError''
                   (''can only concatenate str (not '' @ [CHR 0x22] @ ''list'' @ [CHR 0x22] @
                    '') to str'')) (call_id tc)]) w'"
  using assms by (simp add: result_text_def)

theorem tool_use_loop_list_content_witness:
  "tool_use (ref_ext True echo_classes unit_tests_tool [list_dir_tool] 25)
       (ref_agent [unit_tests_tool, list_dir_tool])
       [AIMessage (Str '''') [\<lparr>name = ''list_dir'', args = [], call_id = ''call_3''\<rparr>]] [] =
     (Inr [ToolMessage (Blocks [text_block ''a.txt'' None, text_block ''b.txt'' None]) ''call_3'',
           ToolMessage
             (Str (''ERROR: Exception during tool 'list_dir' execution: '' @
                   ''can only concatenate str (not '' @ [CHR 0x22] @ ''list'' @ [CHR 0x22] @
                   '') to str''))
             ''call_3''], [])"
proof -
  let ?ext = "ref_ext True echo_classes unit_tests_tool [list_dir_tool] 25"
  let ?by_name = "tools_by_name ?ext [unit_tests_tool, list_dir_tool]"
  let ?tc = "\<lparr>name = ''list_dir'', args = [], call_id = ''call_3''\<rparr>"
  let ?st = "[AIMessage (Str '''') [?tc]]"
  let ?m = "ToolMessage (Blocks [text_block ''a.txt'' None, text_block ''b.txt'' None]) ''call_3''"
  have node: "ToolNode ?ext [?by_name (name ?tc)] = Inr [list_dir_tool]"
    by (simp add: ref_ext_def tools_by_name_def unit_tests_tool_def list_dir_tool_def
        ref_ToolNode_def)
  have answer: "ainvoke ?ext [list_dir_tool] ?st [] = (Inr (?m # []), [])"
    by (simp add: ref_ext_def list_dir_tool_def ref_ainvoke_def ref_run_one_def
        last_message_def)
  have blocks: "content_of ?m = Blocks [text_block ''a.txt'' None, text_block ''b.txt'' None]"
    by simp
  have loop: "tool_use_loop ?ext ?by_name ?st [?tc] [] [] =
      (Inr [?m, error_message ''list_dir''
                (Raised ''TypeError''
                   (''can only concatenate str (not '' @ [CHR 0x22] @ ''list'' @ [CHR 0x22] @
                    '') to str'')) ''call_3''], [])"
    using tool_use_loop_list_content
      [where ext = ?ext and by_name = ?by_name and tc = ?tc, OF node answer blocks,
       of "[]" "[]"]
    by simp
  have "tool_use ?ext (ref_agent [unit_tests_tool, list_dir_tool]) ?st [] =
      tool_use_loop ?ext ?by_name ?st [?tc] [] []"
    by (simp add: tool_use_def ref_agent_def last_message_def)
  with loop show ?thesis by (simp add: error_message_def)
qed

section \<open>The model call\<close>

text \<open>
  Claim C5. On an agent whose model is bound to its tools, \<^verbatim>\<open>model_response\<close> calls
  the model once, on the system preamble, then the message with the working directory,
  then the whole conversation, in this order; it raises what the call raises and
  otherwise returns the response alone. So a step of the workflow at \<^verbatim>\<open>model_response\<close>
  that succeeds leaves the conversation with the response appended and nothing else:
  neither the preamble nor the working-directory message enters the conversation.
\<close>

theorem model_response_context:
  assumes "model_with_tools self = Some bound"
  shows "model_response ext self st w =
           (case invoke ext bound
                   ([SystemMessage (Blocks [text_block system_text (Some ''ephemeral'')]),
                     HumanMessage (Str (''Working directory: '' @ getcwd ext w))] @ st) w of
              (Inl e, w') \<Rightarrow> (Inl e, w')
            | (Inr response, w') \<Rightarrow> (Inr [response], w'))
         \<and> (\<forall>nd' st' w'. step ext self (''model_response'', st) w = (Inr (nd', st'), w') \<longrightarrow>
              (\<exists>response. st' = st @ [response] \<and>
                 invoke ext bound
                   ([SystemMessage (Blocks [text_block system_text (Some ''ephemeral'')]),
                     HumanMessage (Str (''Working directory: '' @ getcwd ext w))] @ st) w =
                 (Inr response, w')))"
proof -
  have eq: "model_response ext self st w =
           (case invoke ext bound
                   ([SystemMessage (Blocks [text_block system_text (Some ''ephemeral'')]),
                     HumanMessage (Str (''Working directory: '' @ getcwd ext w))] @ st) w of
              (Inl e, w') \<Rightarrow> (Inl e, w')
            | (Inr response, w') \<Rightarrow> (Inr [response], w'))"
    using assms by (simp add: model_response_def prompt_messages_def)
  have "\<exists>response. st' = st @ [response] \<and>
                 invoke ext bound
                   ([SystemMessage (Blocks [text_block system_text (Some ''ephemeral'')]),
                     HumanMessage (Str (''Working directory: '' @ getcwd ext w))] @ st) w =
                 (Inr response, w')"
    if "step ext self (''model_response'', st) w = (Inr (nd', st'), w')" for nd' st' w'
  proof -
    from step_appends [OF that] obtain new
      where new: "model_response ext self st w = (Inr new, w')" and st': "st' = st @ new"
      by auto
    from new show ?thesis
      unfolding eq st' by (auto split: prod.splits sum.splits)
  qed
  with eq show ?thesis by blast
qed

theorem model_response_context_witness:
  "model_with_tools (ref_agent [unit_tests_tool]) = Some [unit_tests_tool]
   \<and> step (ref_ext True echo_classes unit_tests_tool [] 25) (ref_agent [unit_tests_tool])
       (''model_response'', [greeting, HumanMessage (Str ''hello'')]) [''next''] =
     (Inr (''user_input'',
           [greeting, HumanMessage (Str ''hello''),
            AIMessage (Blocks [text_block ''SystemMessage'' None, text_block ''HumanMessage'' None,
                               text_block ''AIMessage'' None, text_block ''HumanMessage'' None]) []]),
      [''next''])
   \<and> invoke (ref_ext True echo_classes unit_tests_tool [] 25) [unit_tests_tool]
       ([SystemMessage (Blocks [text_block system_text (Some ''ephemeral'')]),
         HumanMessage (Str ''Working directory: /work'')] @
        [greeting, HumanMessage (Str ''hello'')]) [''next''] =
     (Inr (AIMessage (Blocks [text_block ''SystemMessage'' None, text_block ''HumanMessage'' None,
                               text_block ''AIMessage'' None, text_block ''HumanMessage'' None]) []),
      [''next''])"
  using model_response_context
    [of "ref_agent [unit_tests_tool]" "[unit_tests_tool]"
        "ref_ext True echo_classes unit_tests_tool [] 25"
        "[greeting, HumanMessage (Str ''hello'')]" "[''next'']"]
  by (simp add: ref_agent_def ref_ext_def echo_classes_def greeting_def step_def
      model_response_def prompt_messages_def add_messages_def check_tool_use_def
      last_message_def)

section \<open>The conversation only grows\<close>

text \<open>
  Claim C6. A step of the workflow that succeeds, at any node, leaves a conversation
  that is the prior conversation followed by the messages the node returned: the prior
  conversation is a prefix of the new one. A run of any number of steps, however it
  ends, leaves a conversation of which the one it started from is a prefix.
\<close>

theorem step_only_appends:
  "(step ext self (nd, st) w = (Inr (nd', st'), w') \<longrightarrow>
      prefix st st' \<and> (\<exists>new. run_node ext self nd st w = (Inr new, w') \<and> st' = st @ new))
   \<and> (run_graph ext self n (nd, st) w = (e, (nd2, st2), w2) \<longrightarrow> prefix st st2)"
  using step_appends [of ext self nd st w nd' st' w']
    run_graph_appends [of ext self n nd st w e nd2 st2 w2]
  by auto

theorem step_only_appends_witness:
  "step (ref_ext True echo_classes unit_tests_tool [] 25) (ref_agent [unit_tests_tool])
       (''user_input'', [greeting]) [''hello''] =
     (Inr (''model_response'', [greeting, HumanMessage (Str ''hello'')]), [])
   \<and> prefix [greeting] [greeting, HumanMessage (Str ''hello'')]
   \<and> run_graph (ref_ext True echo_classes unit_tests_tool [] 25) (ref_agent [unit_tests_tool])
       (Suc 0) (''user_input'', [greeting]) [''hello''] =
     (Raised ''GraphRecursionError'' ''Recursion limit reached'',
      (''model_response'', [greeting, HumanMessage (Str ''hello'')]), [])"
  using step_only_appends
    [of "ref_ext True echo_classes unit_tests_tool [] 25" "ref_agent [unit_tests_tool]"
        "''user_input''" "[greeting]" "[''hello'']" "''model_response''"
        "[greeting, HumanMessage (Str ''hello'')]" "[]" "Suc 0"
        "Raised ''GraphRecursionError'' ''Recursion limit reached''" "''model_response''"
        "[greeting, HumanMessage (Str ''hello'')]" "[]"]
  by (simp add: ref_agent_def ref_ext_def step_def user_input_def ref_console_input_def
      add_messages_def)

section \<open>Construction and initialisation\<close>

text \<open>
  Claim C7. If \<^verbatim>\<open>os.getenv\<close> finds no \<^verbatim>\<open>ANTHROPIC_API_KEY\<close> once \<^verbatim>\<open>load_dotenv\<close>
  has run, the constructor of \<^verbatim>\<open>Agent\<close> raises a \<^verbatim>\<open>RuntimeError\<close>, and
  \<^verbatim>\<open>async_main\<close> ends with it at once: no conversation exists and the world is as it
  was, so no tool was loaded, nothing was read from the console and no model was called.
\<close>

theorem Agent_init_missing_key:
  assumes "load_dotenv dotenv environ ''ANTHROPIC_API_KEY'' = None"
  shows "(Agent_init dotenv environ :: exn + ('t, 'k) agent) =
           Inl (Raised ''RuntimeError''
                  ''Missing ANTHROPIC_API_KEY in environment. Set it in .env or your shell.'')
         \<and> async_main (ext :: ('t, 'n, 'k, 'w) externals) dotenv environ saved w =
           (Raised ''RuntimeError''
              ''Missing ANTHROPIC_API_KEY in environment. Set it in .env or your shell.'',
            None, w)"
  using assms by (simp add: Agent_init_def async_main_def)

theorem Agent_init_missing_key_witness:
  "load_dotenv Map.empty [''HOME'' \<mapsto> ''/root''] ''ANTHROPIC_API_KEY'' = None
   \<and> async_main (ref_ext True echo_classes unit_tests_tool [search_tool] 25)
       Map.empty [''HOME'' \<mapsto> ''/root''] [] [''hello''] =
     (Raised ''RuntimeError''
        ''Missing ANTHROPIC_API_KEY in environment. Set it in .env or your shell.'',
      None, [''hello''])"
  using Agent_init_missing_key
    [of Map.empty "[''HOME'' \<mapsto> ''/root'']"
        "ref_ext True echo_classes unit_tests_tool [search_tool] 25" "[]" "[''hello'']"]
  by (simp add: load_dotenv_def)



text \<open>
  Claim C9. On an agent that is initialised, \<^verbatim>\<open>initialize\<close> returns at once: no
  exception, the same agent, the same world (so no tool is loaded, no model bound, no
  checkpoint store opened, no workflow compiled). An agent that a call of
  \<^verbatim>\<open>initialize\<close> has left without exception is initialised, so every later call on it
  is of this kind.
\<close>

theorem initialize_idempotent:
  "(initialized self \<longrightarrow> initialize ext self w = (None, self, w))
   \<and> (initialize ext self0 w0 = (None, self, w1) \<longrightarrow>
        initialized self \<and> initialize ext self w = (None, self, w))"
  by (auto simp: initialize_def Let_def split: if_splits prod.splits sum.splits)

theorem initialize_idempotent_witness:
  "initialize (ref_ext True echo_classes unit_tests_tool [search_tool] 25)
       (ref_agent [unit_tests_tool, search_tool]
         \<lparr> initialized := False, tools := None, model_with_tools := None,
           checkpointer := None, agent := None \<rparr>) [''hello''] =
     (None, ref_agent [unit_tests_tool, search_tool], [''hello''])
   \<and> initialized (ref_agent [unit_tests_tool, search_tool])
   \<and> initialize (ref_ext True echo_classes unit_tests_tool [search_tool] 25)
       (ref_agent [unit_tests_tool, search_tool]) [''hello''] =
     (None, ref_agent [unit_tests_tool, search_tool], [''hello''])"
  using initialize_idempotent
    [of "ref_agent [unit_tests_tool, search_tool]"
        "ref_ext True echo_classes unit_tests_tool [search_tool] 25" "[''hello'']"
        "ref_agent [unit_tests_tool, search_tool]
           \<lparr> initialized := False, tools := None, model_with_tools := None,
             checkpointer := None, agent := None \<rparr>" "[''hello'']" "[''hello'']"]
  by (simp add: initialize_def get_mcp_tools_def ref_ext_def ref_agent_def Let_def)

section \<open>User input\<close>

text \<open>
  Claim C10. Whatever line the console returns, the empty one too, \<^verbatim>\<open>user_input\<close>
  returns exactly one user message whose content is that line, unchanged, and the step
  of the workflow appends it to the conversation and goes on to \<^verbatim>\<open>model_response\<close>.
\<close>

theorem user_input_appends_line:
  assumes "console_input ext w = (Inr line, w')"
    and "workflow self = build_workflow"
  shows "user_input ext st w = (Inr [HumanMessage (Str line)], w')
         \<and> step ext self (''user_input'', st) w =
             (Inr (''model_response'', st @ [HumanMessage (Str line)]), w')"
  using assms by (simp add: user_input_def step_def add_messages_def)

theorem user_input_appends_line_witness:
  "console_input (ref_ext True echo_classes unit_tests_tool [] 25) ['''', ''  two  ''] =
     (Inr '''', [''  two  ''])
   \<and> workflow (ref_agent [unit_tests_tool]) = build_workflow
   \<and> step (ref_ext True echo_classes unit_tests_tool [] 25) (ref_agent [unit_tests_tool])
       (''user_input'', [greeting]) ['''', ''  two  ''] =
     (Inr (''model_response'', [greeting, HumanMessage (Str '''')]), [''  two  ''])"
  using user_input_appends_line
    [of "ref_ext True echo_classes unit_tests_tool [] 25" "['''', ''  two  '']" "''''"
        "[''  two  '']" "ref_agent [unit_tests_tool]" "[greeting]"]
  by (simp add: ref_ext_def ref_console_input_def ref_agent_def)

end
